theory Spec2Isabelle
  imports Complex_Main
begin

section \<open>Python values used by \<^verbatim>\<open>dz_phonenumber/__init__.py\<close>\<close>

text \<open>
  A Python \<^verbatim>\<open>str\<close> is a sequence of Unicode code points, and \<^verbatim>\<open>len\<close>, indexing and
  slicing count code points. A string is therefore a list of code points (natural
  numbers); the literals of the source, all ASCII, are written \<open>str ''...''\<close>.
\<close>

type_synonym pystr = "nat list"

definition str :: "string \<Rightarrow> pystr" where
  "str s = map of_char s"

text \<open>The exceptions the source's operations can raise: \<^verbatim>\<open>s[0]\<close> and \<^verbatim>\<open>d[k]\<close>.\<close>

datatype py_error = IndexError | KeyError

text \<open>\<^verbatim>\<open>s.startswith(p)\<close>\<close>

fun startswith :: "pystr \<Rightarrow> pystr \<Rightarrow> bool" where
  "startswith s [] = True"
| "startswith [] (p # ps) = False"
| "startswith (c # cs) (p # ps) = (c = p \<and> startswith cs ps)"

text \<open>\<^verbatim>\<open>s[0]\<close>: the one-character string at index 0, IndexError on the empty string.\<close>

definition index0 :: "pystr \<Rightarrow> py_error + pystr" where
  "index0 s = (case s of [] \<Rightarrow> Inl IndexError | c # _ \<Rightarrow> Inr [c])"

text \<open>
  A dict display \<^verbatim>\<open>{k1: v1, k2: v2, ...}\<close> inserts its items from left to right, so a key
  written twice keeps the value written last. \<^verbatim>\<open>k in d\<close>, \<^verbatim>\<open>d[k]\<close> (KeyError on a
  missing key) and \<^verbatim>\<open>d.get(k, default)\<close> read the dict.
\<close>

definition dict_display :: "('k \<times> 'v) list \<Rightarrow> ('k \<rightharpoonup> 'v)" where
  "dict_display kvs = foldl (\<lambda>d (k, v). d(k \<mapsto> v)) Map.empty kvs"

definition dict_contains :: "('k \<rightharpoonup> 'v) \<Rightarrow> 'k \<Rightarrow> bool" where
  "dict_contains d k = (d k \<noteq> None)"

definition getitem :: "('k \<rightharpoonup> 'v) \<Rightarrow> 'k \<Rightarrow> py_error + 'v" where
  "getitem d k = (case d k of None \<Rightarrow> Inl KeyError | Some v \<Rightarrow> Inr v)"

definition dict_get :: "('k \<rightharpoonup> 'v) \<Rightarrow> 'k \<Rightarrow> 'v \<Rightarrow> 'v" where
  "dict_get d k dflt = (case d k of None \<Rightarrow> dflt | Some v \<Rightarrow> v)"

text \<open>
  The pattern \<^verbatim>\<open>\d\<close> of a \<^verbatim>\<open>str\<close> regular expression matches every Unicode decimal digit
  (category Nd). The ASCII ones are \<^verbatim>\<open>0\<close> to \<^verbatim>\<open>9\<close> (code points 48 to 57); which code
  points from 128 on are decimal digits is fixed by the interpreter's Unicode
  database, not by this repository, and is the parameter \<open>nd\<close> of the model.
\<close>

definition re_digit :: "(nat \<Rightarrow> bool) \<Rightarrow> nat \<Rightarrow> bool" where
  "re_digit nd c = (if c < 128 then 48 \<le> c \<and> c \<le> 57 else nd c)"

text \<open>
  \<^verbatim>\<open>re.sub(cls, '', s)\<close> for a pattern \<open>cls\<close> that matches single characters: scanning
  from the left, every matching character is replaced by the empty string.
\<close>

primrec re_sub_empty :: "(nat \<Rightarrow> bool) \<Rightarrow> pystr \<Rightarrow> pystr" where
  "re_sub_empty cls [] = []"
| "re_sub_empty cls (c # cs) =
     (if cls c then re_sub_empty cls cs else c # re_sub_empty cls cs)"


section \<open>The data repository \<^verbatim>\<open>_Const\<close>\<close>

text \<open>
  \<^verbatim>\<open>GeoCoder\<close> is a dataclass; its \<^verbatim>\<open>float\<close> fields only carry the constants of the
  table and are modelled by the real numbers the literals denote.
\<close>

record GeoCoder =
  name :: pystr
  longitude :: real
  latitude :: real
  altitude :: real
  timezone :: pystr

text \<open>\<^verbatim>\<open>GeoCoder(name, longitude, latitude, altitude)\<close>, the time zone left at its default.\<close>

definition GeoCoder_init :: "string \<Rightarrow> real \<Rightarrow> real \<Rightarrow> real \<Rightarrow> GeoCoder" where
  "GeoCoder_init n lon lat alt =
     \<lparr>name = str n, longitude = lon, latitude = lat, altitude = alt,
      timezone = str ''Africa/Algiers''\<rparr>"

definition LANDLINE_PATTERNS :: "pystr list" where
  "LANDLINE_PATTERNS = [str ''2'', str ''3'', str ''4'']"

definition MOBILE_PATTERNS :: "pystr list" where
  "MOBILE_PATTERNS = [str ''5'', str ''6'', str ''7'']"

definition MOBILE_CARRIERS :: "pystr \<rightharpoonup> pystr" where
  "MOBILE_CARRIERS = dict_display
     [(str ''5'', str ''Ooredoo''),
      (str ''6'', str ''Mobilis''),
      (str ''7'', str ''Djezzy'')]"

text \<open>A value of \<^verbatim>\<open>NUMBER_LENGTHS\<close> is an \<^verbatim>\<open>int\<close> or a tuple of them.\<close>

datatype length_spec = IntLen nat | TupleLen "nat list"

definition NUMBER_LENGTHS :: "pystr \<rightharpoonup> length_spec" where
  "NUMBER_LENGTHS = dict_display
     [(str ''mobile'', IntLen 9),
      (str ''landline'', IntLen 8),
      (str ''voip'', IntLen 8),
      (str ''vsat'', IntLen 8),
      (str ''short_code'', IntLen 4),
      (str ''emergency'', TupleLen [2, 3, 4])]"

text \<open>\<^verbatim>\<open>len(num) == v\<close> for such a value: an \<^verbatim>\<open>int\<close> never equals a tuple.\<close>

fun len_eq :: "nat \<Rightarrow> length_spec \<Rightarrow> bool" where
  "len_eq n (IntLen m) = (n = m)"
| "len_eq n (TupleLen ms) = False"

definition LANDLINE_REGIONS_items :: "(pystr \<times> GeoCoder) list" where
  "LANDLINE_REGIONS_items =
     [(str ''49'', GeoCoder_init ''Adrar'' (-0.2936) 27.8743 258),
      (str ''27'', GeoCoder_init ''Ain Defla'' 1.9594 36.2509 190),
      (str ''43'', GeoCoder_init ''Ain Temouchent'' (-1.1400) 35.2970 120),
      (str ''21'', GeoCoder_init ''Algiers'' 3.0588 36.7538 10),
      (str ''38'', GeoCoder_init ''Annaba'' 7.7667 36.9000 3),
      (str ''33'', GeoCoder_init ''Batna'' 6.1697 35.5559 1048),
      (str ''34'', GeoCoder_init ''Bejaia'' 5.0667 36.7500 2),
      (str ''25'', GeoCoder_init ''Blida'' 2.8276 36.4700 260),
      (str ''35'', GeoCoder_init ''Bordj Bou Arreridj'' 4.7611 36.0736 928),
      (str ''26'', GeoCoder_init ''Bouira'' 3.9000 36.3667 519),
      (str ''24'', GeoCoder_init ''Boumerdes'' 3.4772 36.7664 10),
      (str ''27'', GeoCoder_init ''Chlef'' 1.3319 36.1654 114),
      (str ''31'', GeoCoder_init ''Constantine'' 6.6147 36.3650 694),
      (str ''27'', GeoCoder_init ''Djelfa'' 3.2500 34.6667 1143),
      (str ''32'', GeoCoder_init ''El Oued'' 6.8639 33.3683 76),
      (str ''29'', GeoCoder_init ''Ghardaia'' 3.6736 32.4839 572),
      (str ''37'', GeoCoder_init ''Guelma'' 7.4264 36.4614 290),
      (str ''29'', GeoCoder_init ''Illizi'' 8.4667 26.4833 558),
      (str ''34'', GeoCoder_init ''Jijel'' 5.7667 36.8167 10),
      (str ''32'', GeoCoder_init ''Khenchela'' 7.1464 35.4269 1122),
      (str ''29'', GeoCoder_init ''Laghouat'' 2.8667 33.8000 769),
      (str ''35'', GeoCoder_init (''M'' @ [CHR 0x27] @ ''sila'') 4.5333 35.7000 471),
      (str ''45'', GeoCoder_init ''Mascara'' 0.1408 35.4000 570),
      (str ''25'', GeoCoder_init ''Medea'' 2.7583 36.2675 920),
      (str ''31'', GeoCoder_init ''Mila'' 6.2647 36.4503 470),
      (str ''45'', GeoCoder_init ''Mostaganem'' 0.0892 35.9333 104),
      (str ''41'', GeoCoder_init ''Oran'' (-0.6333) 35.6911 101),
      (str ''29'', GeoCoder_init ''Ouargla'' 5.3333 31.9500 141),
      (str ''32'', GeoCoder_init ''Oum El Bouaghi'' 7.1136 35.8778 902),
      (str ''46'', GeoCoder_init ''Relizane'' 0.5558 35.7372 98),
      (str ''48'', GeoCoder_init ''Saida'' 4.8306 34.8303 870),
      (str ''36'', GeoCoder_init ''Setif'' 5.4089 36.1919 1096),
      (str ''48'', GeoCoder_init ''Sidi Bel Abbes'' (-0.6333) 35.2000 470),
      (str ''38'', GeoCoder_init ''Skikda'' 6.9094 36.8667 18),
      (str ''37'', GeoCoder_init ''Souk Ahras'' 7.9514 36.2864 699),
      (str ''29'', GeoCoder_init ''Tamanrasset'' 5.5167 22.7850 1320),
      (str ''37'', GeoCoder_init ''Tebessa'' 8.1206 35.4072 858),
      (str ''46'', GeoCoder_init ''Tiaret'' 1.3167 35.3667 1032),
      (str ''43'', GeoCoder_init ''Tlemcen'' (-1.3139) 34.8828 842),
      (str ''24'', GeoCoder_init ''Tipaza'' 2.4500 36.5833 120),
      (str ''46'', GeoCoder_init ''Tissemsilt'' 1.8000 35.6000 850),
      (str ''26'', GeoCoder_init ''Tizi Ouzou'' 4.0500 36.7167 200)]"

definition LANDLINE_REGIONS :: "pystr \<rightharpoonup> GeoCoder" where
  "LANDLINE_REGIONS = dict_display LANDLINE_REGIONS_items"

definition EMERGENCY_NUMBERS :: "pystr \<rightharpoonup> pystr" where
  "EMERGENCY_NUMBERS = dict_display
     [(str ''1548'', str ''Police Nationale''),
      (str ''17'', str ''Police (Short Code)''),
      (str ''1055'', str ''Gendarmerie Nationale''),
      (str ''1054'', str ''Coast Guard''),
      (str ''14'', str ''Protection Civile''),
      (str ''1021'', str ''Civil Protection''),
      (str ''1040'', str ''SAMU (Emergency Medical)''),
      (str ''1234'', str ''Electricity Emergency''),
      (str ''1235'', str ''Gas Emergency'')]"


section \<open>The class \<^verbatim>\<open>PhoneNumber\<close>\<close>

text \<open>
  The attributes of a \<^verbatim>\<open>PhoneNumber\<close> object. \<^verbatim>\<open>number_type\<close>, \<^verbatim>\<open>area_code\<close>,
  \<^verbatim>\<open>carrier\<close> and \<^verbatim>\<open>location\<close> are \<^verbatim>\<open>None\<close> until the parser sets them.
\<close>

record PhoneNumber =
  original_number :: pystr
  clean_number :: pystr
  number_type :: "pystr option"
  area_code :: "pystr option"
  carrier :: "pystr option"
  location :: "GeoCoder option"
  is_valid :: bool

text \<open>\<^verbatim>\<open>_normalize_number\<close>: \<^verbatim>\<open>re.sub(r'[^\d+]', '', number)\<close>; 43 is the code point of \<^verbatim>\<open>+\<close>.\<close>

definition not_digit_or_plus :: "(nat \<Rightarrow> bool) \<Rightarrow> nat \<Rightarrow> bool" where
  "not_digit_or_plus nd c = (\<not> (re_digit nd c \<or> c = 43))"

definition normalize_number :: "(nat \<Rightarrow> bool) \<Rightarrow> pystr \<Rightarrow> pystr" where
  "normalize_number nd number = re_sub_empty (not_digit_or_plus nd) number"

text \<open>
  The form the specification gives to a normalized string: decimal digits only, except
  possibly a single \<^verbatim>\<open>+\<close> at the front.
\<close>

definition spec_normalized_form :: "(nat \<Rightarrow> bool) \<Rightarrow> pystr \<Rightarrow> bool" where
  "spec_normalized_form nd s =
     (case s of
        [] \<Rightarrow> True
      | c # cs \<Rightarrow> (re_digit nd c \<or> c = 43) \<and> list_all (re_digit nd) cs)"

text \<open>\<^verbatim>\<open>_parse_mobile\<close>\<close>

definition parse_mobile :: "PhoneNumber \<Rightarrow> pystr \<Rightarrow> py_error + PhoneNumber" where
  "parse_mobile self num =
     (case index0 num of
        Inl e \<Rightarrow> Inl e
      | Inr c \<Rightarrow>
          if c \<in> set MOBILE_PATTERNS then
            Inr (self\<lparr>number_type := Some (str ''mobile''),
                      carrier := Some (dict_get MOBILE_CARRIERS c (str ''Unknown'')),
                      is_valid := True\<rparr>)
          else Inr self)"

text \<open>\<^verbatim>\<open>_parse_landline\<close>\<close>

definition parse_landline :: "PhoneNumber \<Rightarrow> pystr \<Rightarrow> py_error + PhoneNumber" where
  "parse_landline self num =
     (case index0 num of
        Inl e \<Rightarrow> Inl e
      | Inr c \<Rightarrow>
          if c \<in> set LANDLINE_PATTERNS then
            (let ac = take 2 num in
             if dict_contains LANDLINE_REGIONS ac then
               (case getitem LANDLINE_REGIONS ac of
                  Inl e \<Rightarrow> Inl e
                | Inr g \<Rightarrow>
                    Inr (self\<lparr>number_type := Some (str ''landline''),
                              area_code := Some ac,
                              location := Some g,
                              is_valid := True\<rparr>))
             else Inr self)
          else Inr self)"

text \<open>
  \<^verbatim>\<open>_parse_number\<close>, first part: the international format and the national prefix are
  removed from the local \<^verbatim>\<open>num\<close> (the attribute \<^verbatim>\<open>clean_number\<close> is left as it is).
\<close>

definition strip_international :: "pystr \<Rightarrow> pystr" where
  "strip_international num =
     (if startswith num (str ''213'') then drop 3 num
      else if startswith num (str ''+213'') then drop 4 num
      else num)"

definition strip_national :: "pystr \<Rightarrow> pystr" where
  "strip_national num = (if startswith num (str ''0'') then drop 1 num else num)"

text \<open>
  \<^verbatim>\<open>_parse_number\<close>, second part: the \<^verbatim>\<open>if\<close>/\<^verbatim>\<open>elif\<close> chain on \<^verbatim>\<open>num\<close>, in the order of
  the source; each condition is evaluated only when the ones before it are false.
\<close>

definition determine_type :: "PhoneNumber \<Rightarrow> pystr \<Rightarrow> py_error + PhoneNumber" where
  "determine_type self num =
     (if length num \<in> set [2, 3, 4] \<and> dict_contains EMERGENCY_NUMBERS num then
        Inr (self\<lparr>number_type := Some (str ''emergency''), is_valid := True\<rparr>)
      else
        (case getitem NUMBER_LENGTHS (str ''mobile'') of
           Inl e \<Rightarrow> Inl e
         | Inr lm \<Rightarrow>
            (if len_eq (length num) lm then parse_mobile self num
             else
               (case getitem NUMBER_LENGTHS (str ''landline'') of
                  Inl e \<Rightarrow> Inl e
                | Inr ll \<Rightarrow>
                   (if len_eq (length num) ll then parse_landline self num
                    else
                      (case getitem NUMBER_LENGTHS (str ''voip'') of
                         Inl e \<Rightarrow> Inl e
                       | Inr lv \<Rightarrow>
                          (if len_eq (length num) lv \<and> startswith num (str ''98'') then
                             Inr (self\<lparr>number_type := Some (str ''voip''),
                                       is_valid := True\<rparr>)
                           else
                             (case getitem NUMBER_LENGTHS (str ''vsat'') of
                                Inl e \<Rightarrow> Inl e
                              | Inr ls \<Rightarrow>
                                 (if len_eq (length num) ls \<and> startswith num (str ''96'') then
                                    Inr (self\<lparr>number_type := Some (str ''vsat''),
                                              is_valid := True\<rparr>)
                                  else Inr (self\<lparr>is_valid := False\<rparr>))))))))))"

definition parse_number :: "PhoneNumber \<Rightarrow> py_error + PhoneNumber" where
  "parse_number self =
     determine_type self (strip_national (strip_international (clean_number self)))"

text \<open>
  \<^verbatim>\<open>PhoneNumber(number)\<close>: \<^verbatim>\<open>__init__\<close> assigns the attributes and then calls
  \<^verbatim>\<open>_parse_number\<close>; an exception raised there leaves the caller without an object.
\<close>

definition init_attributes :: "(nat \<Rightarrow> bool) \<Rightarrow> pystr \<Rightarrow> PhoneNumber" where
  "init_attributes nd number =
     \<lparr>original_number = number,
      clean_number = normalize_number nd number,
      number_type = None,
      area_code = None,
      carrier = None,
      location = None,
      is_valid = False\<rparr>"

definition PhoneNumber_init :: "(nat \<Rightarrow> bool) \<Rightarrow> pystr \<Rightarrow> py_error + PhoneNumber" where
  "PhoneNumber_init nd number = parse_number (init_attributes nd number)"

definition is_mobile :: "PhoneNumber \<Rightarrow> bool" where
  "is_mobile self = (number_type self = Some (str ''mobile''))"

definition is_landline :: "PhoneNumber \<Rightarrow> bool" where
  "is_landline self = (number_type self = Some (str ''landline''))"

definition is_emergency :: "PhoneNumber \<Rightarrow> bool" where
  "is_emergency self = (number_type self = Some (str ''emergency''))"

definition is_voip :: "PhoneNumber \<Rightarrow> bool" where
  "is_voip self = (number_type self = Some (str ''voip''))"

definition is_vsat :: "PhoneNumber \<Rightarrow> bool" where
  "is_vsat self = (number_type self = Some (str ''vsat''))"


section \<open>Evaluating the tables and the parser\<close>

lemma NL_mobile: "getitem NUMBER_LENGTHS (str ''mobile'') = Inr (IntLen 9)"
  by (simp add: getitem_def NUMBER_LENGTHS_def dict_display_def str_def)

lemma NL_landline: "getitem NUMBER_LENGTHS (str ''landline'') = Inr (IntLen 8)"
  by (simp add: getitem_def NUMBER_LENGTHS_def dict_display_def str_def)

lemma NL_voip: "getitem NUMBER_LENGTHS (str ''voip'') = Inr (IntLen 8)"
  by (simp add: getitem_def NUMBER_LENGTHS_def dict_display_def str_def)

lemma NL_vsat: "getitem NUMBER_LENGTHS (str ''vsat'') = Inr (IntLen 8)"
  by (simp add: getitem_def NUMBER_LENGTHS_def dict_display_def str_def)

text \<open>
  With the lengths of the table, the chain of \<^verbatim>\<open>_parse_number\<close> is decided by the
  emergency test and the length alone: every \<^verbatim>\<open>num\<close> of length 8 is taken by the landline
  branch, so the conditions of the two branches after it are never evaluated to true.
\<close>

lemma determine_type_chain:
  "determine_type self num =
     (if length num \<in> {2, 3, 4} \<and> dict_contains EMERGENCY_NUMBERS num then
        Inr (self\<lparr>number_type := Some (str ''emergency''), is_valid := True\<rparr>)
      else if length num = 9 then parse_mobile self num
      else if length num = 8 then parse_landline self num
      else Inr (self\<lparr>is_valid := False\<rparr>))"
  by (simp add: determine_type_def NL_mobile NL_landline NL_voip NL_vsat)

lemma carriers:
  "MOBILE_CARRIERS (str ''5'') = Some (str ''Ooredoo'')"
  "MOBILE_CARRIERS (str ''6'') = Some (str ''Mobilis'')"
  "MOBILE_CARRIERS (str ''7'') = Some (str ''Djezzy'')"
  by (simp_all add: MOBILE_CARRIERS_def dict_display_def str_def)

lemma parse_mobile_cases:
  "num \<noteq> [] \<Longrightarrow>
   (\<exists>c \<in> {str ''Ooredoo'', str ''Mobilis'', str ''Djezzy''}.
      parse_mobile self num =
        Inr (self\<lparr>number_type := Some (str ''mobile''), carrier := Some c,
                  is_valid := True\<rparr>)) \<or>
   parse_mobile self num = Inr self"
  by (cases num)
     (auto simp: parse_mobile_def index0_def MOBILE_PATTERNS_def dict_get_def carriers)

lemma parse_landline_cases:
  "num \<noteq> [] \<Longrightarrow>
   (\<exists>g. LANDLINE_REGIONS (take 2 num) = Some g \<and>
      parse_landline self num =
        Inr (self\<lparr>number_type := Some (str ''landline''), area_code := Some (take 2 num),
                  location := Some g, is_valid := True\<rparr>)) \<or>
   parse_landline self num = Inr self"
  by (cases num)
     (auto simp: parse_landline_def index0_def getitem_def dict_contains_def Let_def)

lemma determine_type_cases:
  "determine_type self num =
     Inr (self\<lparr>number_type := Some (str ''emergency''), is_valid := True\<rparr>) \<or>
   (\<exists>c \<in> {str ''Ooredoo'', str ''Mobilis'', str ''Djezzy''}.
      determine_type self num =
        Inr (self\<lparr>number_type := Some (str ''mobile''), carrier := Some c,
                  is_valid := True\<rparr>)) \<or>
   (\<exists>g. LANDLINE_REGIONS (take 2 num) = Some g \<and>
      determine_type self num =
        Inr (self\<lparr>number_type := Some (str ''landline''), area_code := Some (take 2 num),
                  location := Some g, is_valid := True\<rparr>)) \<or>
   determine_type self num = Inr self \<or>
   determine_type self num = Inr (self\<lparr>is_valid := False\<rparr>)"
proof -
  let ?e = "length num \<in> {2, 3, 4} \<and> dict_contains EMERGENCY_NUMBERS num"
  consider (emergency) ?e
    | (nine) "\<not> ?e" "length num = 9"
    | (eight) "\<not> ?e" "length num = 8"
    | (other) "\<not> ?e" "length num \<noteq> 9" "length num \<noteq> 8"
    by blast
  then show ?thesis
  proof cases
    case emergency
    then show ?thesis by (simp add: determine_type_chain)
  next
    case nine
    then have "num \<noteq> []" by auto
    moreover have "determine_type self num = parse_mobile self num"
      using nine by (simp add: determine_type_chain)
    ultimately show ?thesis
      using parse_mobile_cases[of num self] by auto
  next
    case eight
    then have "num \<noteq> []" by auto
    moreover have "determine_type self num = parse_landline self num"
      using eight by (simp add: determine_type_chain)
    ultimately show ?thesis
      using parse_landline_cases[of num self] by auto
  next
    case other
    then show ?thesis by (simp add: determine_type_chain)
  qed
qed

text \<open>The objects a construction can end in: no other combination of attributes occurs.\<close>

lemma PhoneNumber_init_cases:
  "PhoneNumber_init nd number =
     Inr ((init_attributes nd number)
            \<lparr>number_type := Some (str ''emergency''), is_valid := True\<rparr>) \<or>
   (\<exists>c \<in> {str ''Ooredoo'', str ''Mobilis'', str ''Djezzy''}.
      PhoneNumber_init nd number =
        Inr ((init_attributes nd number)
               \<lparr>number_type := Some (str ''mobile''), carrier := Some c,
                is_valid := True\<rparr>)) \<or>
   (\<exists>ac g. LANDLINE_REGIONS ac = Some g \<and>
      PhoneNumber_init nd number =
        Inr ((init_attributes nd number)
               \<lparr>number_type := Some (str ''landline''), area_code := Some ac,
                location := Some g, is_valid := True\<rparr>)) \<or>
   PhoneNumber_init nd number = Inr (init_attributes nd number)"
proof -
  have "(init_attributes nd number)\<lparr>is_valid := False\<rparr> = init_attributes nd number"
    by (simp add: init_attributes_def)
  with determine_type_cases[of "init_attributes nd number"
      "strip_national (strip_international (clean_number (init_attributes nd number)))"]
  show ?thesis
    unfolding PhoneNumber_init_def parse_number_def by metis
qed

lemma type_names_distinct:
  "str ''mobile'' \<noteq> str ''landline''" "str ''mobile'' \<noteq> str ''emergency''"
  "str ''mobile'' \<noteq> str ''voip''" "str ''mobile'' \<noteq> str ''vsat''"
  "str ''landline'' \<noteq> str ''emergency''" "str ''landline'' \<noteq> str ''voip''"
  "str ''landline'' \<noteq> str ''vsat''" "str ''emergency'' \<noteq> str ''voip''"
  "str ''emergency'' \<noteq> str ''vsat''" "str ''voip'' \<noteq> str ''vsat''"
  by (simp_all add: str_def)

lemmas run_defs =
  PhoneNumber_init_def init_attributes_def normalize_number_def not_digit_or_plus_def
  re_digit_def parse_number_def strip_international_def strip_national_def
  determine_type_chain parse_mobile_def parse_landline_def index0_def
  MOBILE_PATTERNS_def LANDLINE_PATTERNS_def dict_get_def dict_contains_def getitem_def
  str_def

lemma run_17:
  "PhoneNumber_init nd (str ''17'') =
     Inr \<lparr>original_number = str ''17'', clean_number = str ''17'',
          number_type = Some (str ''emergency''), area_code = None, carrier = None,
          location = None, is_valid = True\<rparr>"
  by (simp add: run_defs EMERGENCY_NUMBERS_def dict_display_def)

lemma run_170:
  "PhoneNumber_init nd (str ''170'') =
     Inr \<lparr>original_number = str ''170'', clean_number = str ''170'',
          number_type = None, area_code = None, carrier = None,
          location = None, is_valid = False\<rparr>"
  by (simp add: run_defs EMERGENCY_NUMBERS_def dict_display_def)

lemma run_0559123456:
  "PhoneNumber_init nd (str ''0559123456'') =
     Inr \<lparr>original_number = str ''0559123456'', clean_number = str ''0559123456'',
          number_type = Some (str ''mobile''), area_code = None,
          carrier = Some (str ''Ooredoo''), location = None, is_valid = True\<rparr>"
  by (simp add: run_defs MOBILE_CARRIERS_def dict_display_def)


lemma str_eq_iff: "str a = str b \<longleftrightarrow> a = b"
  unfolding str_def by (rule inj_map_eq_map) (rule inj_of_char)

lemma name_GeoCoder_init: "name (GeoCoder_init n lon lat alt) = str n"
  by (simp add: GeoCoder_init_def)

lemma region_27:
  "LANDLINE_REGIONS (str ''27'') = Some (GeoCoder_init ''Djelfa'' 3.2500 34.6667 1143)"
  by (simp add: LANDLINE_REGIONS_def LANDLINE_REGIONS_items_def dict_display_def str_eq_iff)

lemma region_names:
  "LANDLINE_REGIONS ac = Some g \<Longrightarrow>
   name g \<noteq> str ''Ain Defla'' \<and> name g \<noteq> str ''Chlef''"
  by (auto simp add: LANDLINE_REGIONS_def LANDLINE_REGIONS_items_def dict_display_def
      str_eq_iff name_GeoCoder_init split: if_splits)

lemma re_sub_empty_filter: "re_sub_empty cls s = filter (\<lambda>c. \<not> cls c) s"
  by (induction s) simp_all

lemma normalize_number_filter:
  "normalize_number nd s = filter (\<lambda>c. re_digit nd c \<or> c = 43) s"
  by (simp add: normalize_number_def re_sub_empty_filter not_digit_or_plus_def)

lemma normalize_number_digits: "list_all (re_digit nd) s \<Longrightarrow> normalize_number nd s = s"
  by (induction s) (simp_all add: normalize_number_def not_digit_or_plus_def)

lemma emergency_keys:
  "dict_contains EMERGENCY_NUMBERS num \<longleftrightarrow>
   num \<in> {str ''1548'', str ''17'', str ''1055'', str ''1054'', str ''14'', str ''1021'',
          str ''1040'', str ''1234'', str ''1235''}"
  by (auto simp: dict_contains_def EMERGENCY_NUMBERS_def dict_display_def split: if_splits)

lemma emergency_key_length:
  "dict_contains EMERGENCY_NUMBERS num \<Longrightarrow> length num \<in> {2, 3, 4}"
  by (auto simp: emergency_keys str_def)

lemma emergency_test:
  "length num \<in> {2, 3, 4} \<and> dict_contains EMERGENCY_NUMBERS num \<longleftrightarrow>
   dict_contains EMERGENCY_NUMBERS num"
  using emergency_key_length[of num] by blast

text \<open>What \<^verbatim>\<open>_parse_mobile\<close> and \<^verbatim>\<open>_parse_landline\<close> do on a non-empty \<^verbatim>\<open>num\<close>.\<close>

lemma parse_mobile_nonempty:
  "num \<noteq> [] \<Longrightarrow>
   parse_mobile self num =
     (if take 1 num \<in> set MOBILE_PATTERNS then
        Inr (self\<lparr>number_type := Some (str ''mobile''),
                  carrier := Some (dict_get MOBILE_CARRIERS (take 1 num) (str ''Unknown'')),
                  is_valid := True\<rparr>)
      else Inr self)"
  by (cases num) (simp_all add: parse_mobile_def index0_def)

lemma parse_landline_nonempty:
  "num \<noteq> [] \<Longrightarrow>
   parse_landline self num =
     (if take 1 num \<in> set LANDLINE_PATTERNS \<and> dict_contains LANDLINE_REGIONS (take 2 num)
      then
        Inr (self\<lparr>number_type := Some (str ''landline''), area_code := Some (take 2 num),
                  location := LANDLINE_REGIONS (take 2 num), is_valid := True\<rparr>)
      else Inr self)"
  by (cases num)
     (auto simp: parse_landline_def index0_def getitem_def dict_contains_def Let_def)

text \<open>
  The object \<^verbatim>\<open>_parse_number\<close> leaves, by the string \<^verbatim>\<open>num\<close> that remains after the two
  prefix steps, when the object comes from \<^verbatim>\<open>__init__\<close> (no type, not valid).
\<close>

lemma determine_type_result:
  assumes "number_type self = None" and "\<not> is_valid self"
  shows "\<exists>r. determine_type self num = Inr r \<and>
           (number_type r = Some (str ''emergency'') \<longleftrightarrow>
              dict_contains EMERGENCY_NUMBERS num) \<and>
           (is_valid r \<longleftrightarrow>
              dict_contains EMERGENCY_NUMBERS num \<or>
              length num = 9 \<and> take 1 num \<in> set MOBILE_PATTERNS \<or>
              length num = 8 \<and> take 1 num \<in> set LANDLINE_PATTERNS \<and>
                dict_contains LANDLINE_REGIONS (take 2 num))"
proof (cases "dict_contains EMERGENCY_NUMBERS num")
  case True
  then show ?thesis
    using emergency_key_length[of num] by (simp add: determine_type_chain)
next
  case False
  consider (nine) "length num = 9" | (eight) "length num = 8"
    | (other) "length num \<noteq> 9" "length num \<noteq> 8"
    by blast
  then show ?thesis
  proof cases
    case nine
    then have "num \<noteq> []" by auto
    then show ?thesis
      using False nine assms type_names_distinct
      by (simp add: determine_type_chain parse_mobile_nonempty)
  next
    case eight
    then have "num \<noteq> []" by auto
    then show ?thesis
      using False eight assms type_names_distinct
      by (simp add: determine_type_chain parse_landline_nonempty)
  next
    case other
    then show ?thesis
      using False assms by (simp add: determine_type_chain)
  qed
qed

lemma PhoneNumber_init_result:
  "\<exists>r. PhoneNumber_init nd number = Inr r \<and>
     (number_type r = Some (str ''emergency'') \<longleftrightarrow>
        dict_contains EMERGENCY_NUMBERS
          (strip_national (strip_international (normalize_number nd number)))) \<and>
     (is_valid r \<longleftrightarrow>
        dict_contains EMERGENCY_NUMBERS
          (strip_national (strip_international (normalize_number nd number))) \<or>
        length (strip_national (strip_international (normalize_number nd number))) = 9 \<and>
          take 1 (strip_national (strip_international (normalize_number nd number)))
            \<in> set MOBILE_PATTERNS \<or>
        length (strip_national (strip_international (normalize_number nd number))) = 8 \<and>
          take 1 (strip_national (strip_international (normalize_number nd number)))
            \<in> set LANDLINE_PATTERNS \<and>
          dict_contains LANDLINE_REGIONS
            (take 2 (strip_national (strip_international (normalize_number nd number)))))"
proof -
  have "number_type (init_attributes nd number) = None"
    and "\<not> is_valid (init_attributes nd number)"
    and "clean_number (init_attributes nd number) = normalize_number nd number"
    by (simp_all add: init_attributes_def)
  then show ?thesis
    using determine_type_result[of "init_attributes nd number"
        "strip_national (strip_international (normalize_number nd number))"]
    by (simp add: PhoneNumber_init_def parse_number_def)
qed

section \<open>Claims about the parser\<close>

text \<open>
  Claim C1. The specification expects \<^verbatim>\<open>PhoneNumber("98123456")\<close> to be valid with type
  \<^verbatim>\<open>voip\<close>. The source does not do that: the string has length 8, so the landline
  branch of the chain takes it, \<^verbatim>\<open>_parse_landline\<close> finds the leading \<^verbatim>\<open>9\<close> outside
  \<^verbatim>\<open>LANDLINE_PATTERNS\<close> and sets nothing, and the \<^verbatim>\<open>voip\<close> branch behind it is never
  tried. The object keeps no type and \<^verbatim>\<open>is_valid = False\<close>, whatever the Unicode
  database \<open>nd\<close>.
\<close>

theorem voip_98123456_not_classified:
  "PhoneNumber_init nd (str ''98123456'') =
     Inr \<lparr>original_number = str ''98123456'', clean_number = str ''98123456'',
          number_type = None, area_code = None, carrier = None,
          location = None, is_valid = False\<rparr>"
  by (simp add: run_defs)

text \<open>
  Claim C2. The specification expects the three prefix forms \<^verbatim>\<open>+213559123456\<close>,
  \<^verbatim>\<open>00213559123456\<close> and \<^verbatim>\<open>0559123456\<close> to give the same type and carrier. The source
  gives \<^verbatim>\<open>mobile\<close> and \<^verbatim>\<open>Ooredoo\<close> for the first and the third, but it has no test for
  \<^verbatim>\<open>00213\<close>: of \<^verbatim>\<open>00213559123456\<close> only one leading \<^verbatim>\<open>0\<close> is removed, 13 characters
  remain, and the object is invalid with no type and no carrier.
\<close>

theorem prefix_forms_of_559123456:
  "PhoneNumber_init nd (str ''+213559123456'') =
     Inr \<lparr>original_number = str ''+213559123456'', clean_number = str ''+213559123456'',
          number_type = Some (str ''mobile''), area_code = None,
          carrier = Some (str ''Ooredoo''), location = None, is_valid = True\<rparr> \<and>
   PhoneNumber_init nd (str ''0559123456'') =
     Inr \<lparr>original_number = str ''0559123456'', clean_number = str ''0559123456'',
          number_type = Some (str ''mobile''), area_code = None,
          carrier = Some (str ''Ooredoo''), location = None, is_valid = True\<rparr> \<and>
   strip_national (strip_international (str ''00213559123456'')) = str ''0213559123456'' \<and>
   PhoneNumber_init nd (str ''00213559123456'') =
     Inr \<lparr>original_number = str ''00213559123456'', clean_number = str ''00213559123456'',
          number_type = None, area_code = None,
          carrier = None, location = None, is_valid = False\<rparr>"
  by (simp add: run_defs MOBILE_CARRIERS_def dict_display_def)




text \<open>
  Claim C4. The object constructed from any string satisfies the three invariants of the
  record: \<^verbatim>\<open>is_valid\<close> holds exactly when a type was assigned, \<^verbatim>\<open>carrier\<close> is set exactly
  when the type is \<^verbatim>\<open>mobile\<close>, and \<^verbatim>\<open>area_code\<close> and \<^verbatim>\<open>location\<close> are both set exactly
  when the type is \<^verbatim>\<open>landline\<close>.
\<close>

theorem record_invariants:
  "\<exists>r. PhoneNumber_init nd number = Inr r \<and>
     (is_valid r \<longleftrightarrow> number_type r \<noteq> None) \<and>
     (carrier r \<noteq> None \<longleftrightarrow> number_type r = Some (str ''mobile'')) \<and>
     (area_code r \<noteq> None \<and> location r \<noteq> None \<longleftrightarrow>
        number_type r = Some (str ''landline''))"
  using PhoneNumber_init_cases[of nd number] type_names_distinct
  by (auto simp: init_attributes_def)

theorem record_invariants_witness:
  "\<exists>r. PhoneNumber_init bot (str ''0559123456'') = Inr r \<and>
     is_valid r \<and> number_type r = Some (str ''mobile'') \<and> carrier r \<noteq> None \<and>
     \<not> (area_code r \<noteq> None \<and> location r \<noteq> None)"
  using record_invariants[of bot "str ''0559123456''"] type_names_distinct
  by (auto simp: run_0559123456)

text \<open>
  Claim C7. The emergency test is an exact match on the keys of \<^verbatim>\<open>EMERGENCY_NUMBERS\<close>:
  for every input, the constructed object has type \<^verbatim>\<open>emergency\<close> exactly when the string
  that remains after normalization and the two prefix steps has 2, 3 or 4 characters and
  is one of the nine keys of the table, and then it is valid. In particular \<^verbatim>\<open>17\<close> is a key and gives a valid object
  of type \<^verbatim>\<open>emergency\<close>; \<^verbatim>\<open>170\<close> has length 3 but is no key, no other length rule takes
  it, and the object is invalid.
\<close>

theorem emergency_exact_match:
  "(\<exists>r. PhoneNumber_init nd number = Inr r \<and>
      (is_emergency r \<longleftrightarrow>
         length (strip_national (strip_international (normalize_number nd number)))
             \<in> {2, 3, 4} \<and>
           dict_contains EMERGENCY_NUMBERS
             (strip_national (strip_international (normalize_number nd number)))) \<and>
      (is_emergency r \<longrightarrow> is_valid r)) \<and>
   (dict_contains EMERGENCY_NUMBERS num \<longleftrightarrow>
      num \<in> {str ''1548'', str ''17'', str ''1055'', str ''1054'', str ''14'', str ''1021'',
             str ''1040'', str ''1234'', str ''1235''}) \<and>
   dict_contains EMERGENCY_NUMBERS (str ''17'') \<and>
   PhoneNumber_init nd (str ''17'') =
     Inr \<lparr>original_number = str ''17'', clean_number = str ''17'',
          number_type = Some (str ''emergency''), area_code = None, carrier = None,
          location = None, is_valid = True\<rparr> \<and>
   \<not> dict_contains EMERGENCY_NUMBERS (str ''170'') \<and>
   PhoneNumber_init nd (str ''170'') =
     Inr \<lparr>original_number = str ''170'', clean_number = str ''170'',
          number_type = None, area_code = None, carrier = None,
          location = None, is_valid = False\<rparr>"
proof (intro conjI)
  show "\<exists>r. PhoneNumber_init nd number = Inr r \<and>
      (is_emergency r \<longleftrightarrow>
         length (strip_national (strip_international (normalize_number nd number)))
             \<in> {2, 3, 4} \<and>
           dict_contains EMERGENCY_NUMBERS
             (strip_national (strip_international (normalize_number nd number)))) \<and>
      (is_emergency r \<longrightarrow> is_valid r)"
    using PhoneNumber_init_result[of nd number]
    unfolding emergency_test by (auto simp: is_emergency_def)
  show "dict_contains EMERGENCY_NUMBERS num \<longleftrightarrow>
      num \<in> {str ''1548'', str ''17'', str ''1055'', str ''1054'', str ''14'', str ''1021'',
             str ''1040'', str ''1234'', str ''1235''}"
    by (rule emergency_keys)
  show "dict_contains EMERGENCY_NUMBERS (str ''17'')"
    by (simp add: emergency_keys)
  show "\<not> dict_contains EMERGENCY_NUMBERS (str ''170'')"
    by (simp add: emergency_keys str_eq_iff)
  show "PhoneNumber_init nd (str ''17'') =
     Inr \<lparr>original_number = str ''17'', clean_number = str ''17'',
          number_type = Some (str ''emergency''), area_code = None, carrier = None,
          location = None, is_valid = True\<rparr>"
    by (rule run_17)
  show "PhoneNumber_init nd (str ''170'') =
     Inr \<lparr>original_number = str ''170'', clean_number = str ''170'',
          number_type = None, area_code = None, carrier = None,
          location = None, is_valid = False\<rparr>"
    by (rule run_170)
qed

theorem emergency_exact_match_witness:
  "strip_national (strip_international (normalize_number bot (str ''+213 (0) 14''))) = str ''14'' \<and>
   dict_contains EMERGENCY_NUMBERS (str ''14'') \<and>
   (\<exists>r. PhoneNumber_init bot (str ''+213 (0) 14'') = Inr r \<and> is_emergency r \<and> is_valid r) \<and>
   strip_national (strip_international (normalize_number bot (str ''15''))) = str ''15'' \<and>
   \<not> dict_contains EMERGENCY_NUMBERS (str ''15'') \<and>
   (\<exists>r. PhoneNumber_init bot (str ''15'') = Inr r \<and> \<not> is_emergency r)"
proof -
  have n1: "strip_national (strip_international
        (normalize_number bot (str ''+213 (0) 14''))) = str ''14''"
    by (simp add: normalize_number_def not_digit_or_plus_def re_digit_def
        strip_national_def strip_international_def str_def)
  have n2: "strip_national (strip_international (normalize_number bot (str ''15'')))
      = str ''15''"
    by (simp add: normalize_number_def not_digit_or_plus_def re_digit_def
        strip_national_def strip_international_def str_def)
  have k1: "dict_contains EMERGENCY_NUMBERS (str ''14'')"
    and k2: "\<not> dict_contains EMERGENCY_NUMBERS (str ''15'')"
    by (simp_all add: emergency_keys str_eq_iff)
  have len: "length (str ''14'') = 2"
    by (simp add: str_def)
  show ?thesis
    using emergency_exact_match[of bot "str ''+213 (0) 14''" "str ''14''"]
      emergency_exact_match[of bot "str ''15''" "str ''15''"]
    unfolding n1 n2 using k1 k2 len by auto
qed

text \<open>
  Claim C9. For the object constructed from any string, the five type predicates are
  mutually exclusive and tied to validity: when \<^verbatim>\<open>is_valid\<close> holds exactly one of
  \<^verbatim>\<open>is_mobile\<close>, \<^verbatim>\<open>is_landline\<close>, \<^verbatim>\<open>is_emergency\<close>, \<^verbatim>\<open>is_voip\<close>, \<^verbatim>\<open>is_vsat\<close> is true, and
  when it does not hold all five are false.
\<close>

theorem type_predicates_exclusive:
  "\<exists>r. PhoneNumber_init nd number = Inr r \<and>
     (is_valid r \<longrightarrow>
        count_list [is_mobile r, is_landline r, is_emergency r, is_voip r, is_vsat r] True
          = 1) \<and>
     (\<not> is_valid r \<longrightarrow>
        \<not> is_mobile r \<and> \<not> is_landline r \<and> \<not> is_emergency r \<and> \<not> is_voip r \<and>
        \<not> is_vsat r)"
  using PhoneNumber_init_cases[of nd number] type_names_distinct
  by (auto simp: init_attributes_def is_mobile_def is_landline_def is_emergency_def
      is_voip_def is_vsat_def)

theorem type_predicates_exclusive_witness:
  "(\<exists>r. PhoneNumber_init bot (str ''17'') = Inr r \<and> is_valid r \<and>
      count_list [is_mobile r, is_landline r, is_emergency r, is_voip r, is_vsat r] True
        = 1) \<and>
   (\<exists>r. PhoneNumber_init bot (str ''170'') = Inr r \<and> \<not> is_valid r \<and>
      \<not> is_mobile r \<and> \<not> is_landline r \<and> \<not> is_emergency r \<and> \<not> is_voip r \<and>
      \<not> is_vsat r)"
  using type_predicates_exclusive[of bot "str ''17''"]
    type_predicates_exclusive[of bot "str ''170''"]
  by (auto simp: run_17 run_170)

text \<open>
  Claim C10. Whenever the constructed object has type \<^verbatim>\<open>mobile\<close>, its carrier is one of
  \<^verbatim>\<open>Ooredoo\<close>, \<^verbatim>\<open>Mobilis\<close>, \<^verbatim>\<open>Djezzy\<close> and never the default \<^verbatim>\<open>Unknown\<close> of the lookup:
  every member of \<^verbatim>\<open>MOBILE_PATTERNS\<close>, the only leading digits for which the carrier is
  looked up, is a key of \<^verbatim>\<open>MOBILE_CARRIERS\<close>.
\<close>

theorem mobile_carrier_known:
  "(PhoneNumber_init nd number = Inr r \<and> is_mobile r \<longrightarrow>
      carrier r \<in> {Some (str ''Ooredoo''), Some (str ''Mobilis''), Some (str ''Djezzy'')} \<and>
      carrier r \<noteq> Some (str ''Unknown'')) \<and>
   (\<forall>p \<in> set MOBILE_PATTERNS. dict_contains MOBILE_CARRIERS p)"
proof
  show "PhoneNumber_init nd number = Inr r \<and> is_mobile r \<longrightarrow>
      carrier r \<in> {Some (str ''Ooredoo''), Some (str ''Mobilis''), Some (str ''Djezzy'')} \<and>
      carrier r \<noteq> Some (str ''Unknown'')"
    using PhoneNumber_init_cases[of nd number] type_names_distinct
    by (auto simp: init_attributes_def is_mobile_def str_def)
  show "\<forall>p \<in> set MOBILE_PATTERNS. dict_contains MOBILE_CARRIERS p"
    by (simp add: MOBILE_PATTERNS_def dict_contains_def carriers)
qed

theorem mobile_carrier_known_witness:
  "PhoneNumber_init bot (str ''0559123456'') =
     Inr \<lparr>original_number = str ''0559123456'', clean_number = str ''0559123456'',
          number_type = Some (str ''mobile''), area_code = None,
          carrier = Some (str ''Ooredoo''), location = None, is_valid = True\<rparr> \<and>
   is_mobile \<lparr>original_number = str ''0559123456'', clean_number = str ''0559123456'',
          number_type = Some (str ''mobile''), area_code = None,
          carrier = Some (str ''Ooredoo''), location = None, is_valid = True\<rparr> \<and>
   Some (str ''Ooredoo'') \<noteq> Some (str ''Unknown'') \<and>
   dict_contains MOBILE_CARRIERS (str ''5'')"
  using mobile_carrier_known[of bot "str ''0559123456''"
      "\<lparr>original_number = str ''0559123456'', clean_number = str ''0559123456'',
          number_type = Some (str ''mobile''), area_code = None,
          carrier = Some (str ''Ooredoo''), location = None, is_valid = True\<rparr>"]
  by (simp add: run_0559123456 is_mobile_def MOBILE_PATTERNS_def)



text \<open>
  Claim C5. Every string of exactly 9 decimal digits whose first digit is \<^verbatim>\<open>5\<close>, \<^verbatim>\<open>6\<close> or
  \<^verbatim>\<open>7\<close> is constructed without exception into a valid object of type \<^verbatim>\<open>mobile\<close>, with
  the carrier of the fixed map: \<^verbatim>\<open>5\<close> gives Ooredoo, \<^verbatim>\<open>6\<close> Mobilis, \<^verbatim>\<open>7\<close> Djezzy.
\<close>

theorem mobile_nine_digits:
  assumes len: "length s = 9"
    and digits: "list_all (re_digit nd) s"
    and first: "index0 s \<in> {Inr (str ''5''), Inr (str ''6''), Inr (str ''7'')}"
  shows "\<exists>r. PhoneNumber_init nd s = Inr r \<and> is_valid r \<and>
           number_type r = Some (str ''mobile'') \<and>
           (index0 s = Inr (str ''5'') \<longrightarrow> carrier r = Some (str ''Ooredoo'')) \<and>
           (index0 s = Inr (str ''6'') \<longrightarrow> carrier r = Some (str ''Mobilis'')) \<and>
           (index0 s = Inr (str ''7'') \<longrightarrow> carrier r = Some (str ''Djezzy''))"
proof -
  from len obtain c cs where s: "s = c # cs"
    by (cases s) auto
  from first s have c: "c = 53 \<or> c = 54 \<or> c = 55"
    by (auto simp: index0_def str_def)
  have clean: "clean_number (init_attributes nd s) = s"
    using digits by (simp add: init_attributes_def normalize_number_digits)
  have strip: "strip_national (strip_international s) = s"
    using c s by (auto simp: strip_national_def strip_international_def str_def)
  have chain: "determine_type (init_attributes nd s) s = parse_mobile (init_attributes nd s) s"
    using len by (simp add: determine_type_chain)
  have "PhoneNumber_init nd s = parse_mobile (init_attributes nd s) s"
    by (simp add: PhoneNumber_init_def parse_number_def clean strip chain)
  moreover have "carrier_of = dict_get MOBILE_CARRIERS [c] (str ''Unknown'') \<Longrightarrow>
      (c = 53 \<longrightarrow> carrier_of = str ''Ooredoo'') \<and>
      (c = 54 \<longrightarrow> carrier_of = str ''Mobilis'') \<and>
      (c = 55 \<longrightarrow> carrier_of = str ''Djezzy'')" for carrier_of
    using carriers by (simp add: dict_get_def str_def)
  ultimately show ?thesis
    using c s by (auto simp: parse_mobile_def index0_def MOBILE_PATTERNS_def str_def)
qed

theorem mobile_nine_digits_witness:
  "length (str ''661234567'') = 9 \<and> list_all (re_digit bot) (str ''661234567'') \<and>
   index0 (str ''661234567'') = Inr (str ''6'') \<and>
   (\<exists>r. PhoneNumber_init bot (str ''661234567'') = Inr r \<and> is_valid r \<and>
      number_type r = Some (str ''mobile'') \<and> carrier r = Some (str ''Mobilis''))"
proof -
  have h1: "length (str ''661234567'') = 9"
    by (simp add: str_def)
  have h2: "list_all (re_digit bot) (str ''661234567'')"
    by (simp add: str_def re_digit_def)
  have h3: "index0 (str ''661234567'') = Inr (str ''6'')"
    by (simp add: str_def index0_def)
  then have h4: "index0 (str ''661234567'')
      \<in> {Inr (str ''5''), Inr (str ''6''), Inr (str ''7'')}"
    by simp
  show ?thesis
    using mobile_nine_digits[OF h1 h2 h4] h1 h2 h3 by auto
qed

text \<open>
  Claim C6. The specification expects the normalized string to consist of decimal digits
  only, except possibly a single \<^verbatim>\<open>+\<close> at the front, and the docstring of
  \<^verbatim>\<open>_normalize_number\<close> says "Remove all non-digit characters". The source does not do
  that: the class \<^verbatim>\<open>[^\d+]\<close> spares every \<^verbatim>\<open>+\<close>, wherever it stands, so \<^verbatim>\<open>1+2\<close> is
  normalized to \<^verbatim>\<open>1+2\<close>, which is not of that form; and \<^verbatim>\<open>5+5912345\<close>, kept as it is, is
  constructed into a valid mobile number whose \<^verbatim>\<open>clean_number\<close> contains the \<^verbatim>\<open>+\<close>.
\<close>

theorem normalize_keeps_inner_plus:
  "normalize_number bot (str ''1+2'') = str ''1+2'' \<and>
   \<not> spec_normalized_form bot (normalize_number bot (str ''1+2'')) \<and>
   PhoneNumber_init bot (str ''5+5912345'') =
     Inr \<lparr>original_number = str ''5+5912345'', clean_number = str ''5+5912345'',
          number_type = Some (str ''mobile''), area_code = None,
          carrier = Some (str ''Ooredoo''), location = None, is_valid = True\<rparr>"
  by (simp add: run_defs spec_normalized_form_def MOBILE_CARRIERS_def dict_display_def)

text \<open>
  Claim C8. An area code resolves to one region, the one written last under that key in
  the table: under \<^verbatim>\<open>27\<close> the table lists Ain Defla, Chlef and Djelfa, in this order,
  and every string of 8 decimal digits that starts with \<^verbatim>\<open>27\<close> is constructed into a valid
  landline object whose location is the Djelfa record. No area code resolves to a region
  named Ain Defla or Chlef.
\<close>

theorem area_code_27_is_Djelfa:
  "(length s = 8 \<and> list_all (re_digit nd) s \<and> take 2 s = str ''27'' \<longrightarrow>
      PhoneNumber_init nd s =
        Inr \<lparr>original_number = s, clean_number = s,
             number_type = Some (str ''landline''), area_code = Some (str ''27''),
             carrier = None,
             location = Some (GeoCoder_init ''Djelfa'' 3.2500 34.6667 1143),
             is_valid = True\<rparr>) \<and>
   map snd (filter (\<lambda>kv. fst kv = str ''27'') LANDLINE_REGIONS_items) =
     [GeoCoder_init ''Ain Defla'' 1.9594 36.2509 190,
      GeoCoder_init ''Chlef'' 1.3319 36.1654 114,
      GeoCoder_init ''Djelfa'' 3.2500 34.6667 1143] \<and>
   (\<forall>ac g. LANDLINE_REGIONS ac = Some g \<longrightarrow>
      name g \<noteq> str ''Ain Defla'' \<and> name g \<noteq> str ''Chlef'')"
proof (intro conjI impI allI)
  assume a: "length s = 8 \<and> list_all (re_digit nd) s \<and> take 2 s = str ''27''"
  then obtain cs where s: "s = 50 # 55 # cs"
    by (cases s; cases "tl s") (auto simp: str_def)
  have clean: "normalize_number nd s = s"
    using a by (simp add: normalize_number_digits)
  have strip: "strip_national (strip_international s) = s"
    using s by (simp add: strip_national_def strip_international_def str_def)
  have "PhoneNumber_init nd s = parse_landline (init_attributes nd s) s"
    using a by (simp add: PhoneNumber_init_def parse_number_def init_attributes_def clean strip
        determine_type_chain)
  moreover have "index0 s = Inr (str ''2'')"
    using s by (simp add: index0_def str_def)
  moreover have "str ''2'' \<in> set LANDLINE_PATTERNS"
    by (simp add: LANDLINE_PATTERNS_def)
  ultimately show "PhoneNumber_init nd s =
        Inr \<lparr>original_number = s, clean_number = s,
             number_type = Some (str ''landline''), area_code = Some (str ''27''),
             carrier = None,
             location = Some (GeoCoder_init ''Djelfa'' 3.2500 34.6667 1143),
             is_valid = True\<rparr>"
    using a region_27
    by (simp add: parse_landline_def dict_contains_def getitem_def init_attributes_def clean)
next
  show "map snd (filter (\<lambda>kv. fst kv = str ''27'') LANDLINE_REGIONS_items) =
     [GeoCoder_init ''Ain Defla'' 1.9594 36.2509 190,
      GeoCoder_init ''Chlef'' 1.3319 36.1654 114,
      GeoCoder_init ''Djelfa'' 3.2500 34.6667 1143]"
    by (simp add: LANDLINE_REGIONS_items_def str_eq_iff)
next
  fix ac g
  assume "LANDLINE_REGIONS ac = Some g"
  then show "name g \<noteq> str ''Ain Defla''" "name g \<noteq> str ''Chlef''"
    using region_names by blast+
qed

theorem area_code_27_is_Djelfa_witness:
  "length (str ''27123456'') = 8 \<and> list_all (re_digit bot) (str ''27123456'') \<and>
   take 2 (str ''27123456'') = str ''27'' \<and>
   PhoneNumber_init bot (str ''27123456'') =
     Inr \<lparr>original_number = str ''27123456'', clean_number = str ''27123456'',
          number_type = Some (str ''landline''), area_code = Some (str ''27''),
          carrier = None,
          location = Some (GeoCoder_init ''Djelfa'' 3.2500 34.6667 1143),
          is_valid = True\<rparr> \<and>
   LANDLINE_REGIONS (str ''27'') = Some (GeoCoder_init ''Djelfa'' 3.2500 34.6667 1143) \<and>
   name (GeoCoder_init ''Djelfa'' 3.2500 34.6667 1143) \<noteq> str ''Chlef''"
proof -
  have h: "length (str ''27123456'') = 8 \<and> list_all (re_digit bot) (str ''27123456'') \<and>
      take 2 (str ''27123456'') = str ''27''"
    by (simp add: str_def re_digit_def)
  show ?thesis
    using area_code_27_is_Djelfa[of "str ''27123456''" bot] h region_27
    by (simp add: name_GeoCoder_init str_eq_iff)
qed


end
